theory Spec2Isabelle
  imports Main "HOL-Library.Word"
begin

section \<open>The enumeration \<open>spa_bluetooth_audio_codec\<close>\<close>

text \<open>
  The header \<^verbatim>\<open>spa/param/bluetooth/audio.h\<close> declares one C enumeration. Its
  enumerators become the constructors of a datatype, in declaration order.
\<close>

datatype spa_bluetooth_audio_codec =
    SPA_BLUETOOTH_AUDIO_CODEC_START
  | SPA_BLUETOOTH_AUDIO_CODEC_SBC
  | SPA_BLUETOOTH_AUDIO_CODEC_SBC_XQ
  | SPA_BLUETOOTH_AUDIO_CODEC_MPEG
  | SPA_BLUETOOTH_AUDIO_CODEC_AAC
  | SPA_BLUETOOTH_AUDIO_CODEC_APTX
  | SPA_BLUETOOTH_AUDIO_CODEC_APTX_HD
  | SPA_BLUETOOTH_AUDIO_CODEC_LDAC
  | SPA_BLUETOOTH_AUDIO_CODEC_APTX_LL
  | SPA_BLUETOOTH_AUDIO_CODEC_APTX_LL_DUPLEX
  | SPA_BLUETOOTH_AUDIO_CODEC_FASTSTREAM
  | SPA_BLUETOOTH_AUDIO_CODEC_FASTSTREAM_DUPLEX
  | SPA_BLUETOOTH_AUDIO_CODEC_LC3PLUS_HR
  | SPA_BLUETOOTH_AUDIO_CODEC_OPUS_05
  | SPA_BLUETOOTH_AUDIO_CODEC_OPUS_05_51
  | SPA_BLUETOOTH_AUDIO_CODEC_OPUS_05_71
  | SPA_BLUETOOTH_AUDIO_CODEC_OPUS_05_DUPLEX
  | SPA_BLUETOOTH_AUDIO_CODEC_OPUS_05_PRO
  | SPA_BLUETOOTH_AUDIO_CODEC_CVSD
  | SPA_BLUETOOTH_AUDIO_CODEC_MSBC
  | SPA_BLUETOOTH_AUDIO_CODEC_LC3

text \<open>
  The three section comments of the declaration (\<^verbatim>\<open>/* A2DP */\<close>, \<^verbatim>\<open>/* HFP */\<close>,
  \<^verbatim>\<open>/* BAP */\<close>) name the profile families.
\<close>

datatype profile_family = A2DP | HFP | BAP

text \<open>
  The body of the declaration, item by item as the header writes it: a section comment,
  or an enumerator with its initialiser when it has one (\<open>= 0x100\<close>, \<open>= 0x200\<close>).
\<close>

datatype enum_item =
    Section profile_family
  | Enumerator spa_bluetooth_audio_codec "int option"

definition enum_body :: "enum_item list" where
  "enum_body =
    [ Enumerator SPA_BLUETOOTH_AUDIO_CODEC_START None,
      Section A2DP,
      Enumerator SPA_BLUETOOTH_AUDIO_CODEC_SBC None,
      Enumerator SPA_BLUETOOTH_AUDIO_CODEC_SBC_XQ None,
      Enumerator SPA_BLUETOOTH_AUDIO_CODEC_MPEG None,
      Enumerator SPA_BLUETOOTH_AUDIO_CODEC_AAC None,
      Enumerator SPA_BLUETOOTH_AUDIO_CODEC_APTX None,
      Enumerator SPA_BLUETOOTH_AUDIO_CODEC_APTX_HD None,
      Enumerator SPA_BLUETOOTH_AUDIO_CODEC_LDAC None,
      Enumerator SPA_BLUETOOTH_AUDIO_CODEC_APTX_LL None,
      Enumerator SPA_BLUETOOTH_AUDIO_CODEC_APTX_LL_DUPLEX None,
      Enumerator SPA_BLUETOOTH_AUDIO_CODEC_FASTSTREAM None,
      Enumerator SPA_BLUETOOTH_AUDIO_CODEC_FASTSTREAM_DUPLEX None,
      Enumerator SPA_BLUETOOTH_AUDIO_CODEC_LC3PLUS_HR None,
      Enumerator SPA_BLUETOOTH_AUDIO_CODEC_OPUS_05 None,
      Enumerator SPA_BLUETOOTH_AUDIO_CODEC_OPUS_05_51 None,
      Enumerator SPA_BLUETOOTH_AUDIO_CODEC_OPUS_05_71 None,
      Enumerator SPA_BLUETOOTH_AUDIO_CODEC_OPUS_05_DUPLEX None,
      Enumerator SPA_BLUETOOTH_AUDIO_CODEC_OPUS_05_PRO None,
      Section HFP,
      Enumerator SPA_BLUETOOTH_AUDIO_CODEC_CVSD (Some 0x100),
      Enumerator SPA_BLUETOOTH_AUDIO_CODEC_MSBC None,
      Section BAP,
      Enumerator SPA_BLUETOOTH_AUDIO_CODEC_LC3 (Some 0x200) ]"

text \<open>
  The C rule for enumeration constants: the first enumerator without an initialiser is
  \<open>0\<close>, an enumerator with an initialiser has that value, and every other one is its
  predecessor plus one. \<open>layout n f items\<close> walks the body with the next implicit value
  \<open>n\<close> and the section \<open>f\<close> the walk is in (none before the first section comment), and
  yields each enumerator with its value and its section.
\<close>

fun layout ::
  "int \<Rightarrow> profile_family option \<Rightarrow> enum_item list \<Rightarrow>
   (spa_bluetooth_audio_codec \<times> int \<times> profile_family option) list" where
  "layout n f [] = []"
| "layout n f (Section g # items) = layout n (Some g) items"
| "layout n f (Enumerator e None # items) = (e, n, f) # layout (n + 1) f items"
| "layout n f (Enumerator e (Some v) # items) = (e, v, f) # layout (v + 1) f items"

definition codec_table ::
  "(spa_bluetooth_audio_codec \<times> int \<times> profile_family option) list" where
  "codec_table = layout 0 None enum_body"

definition codec_value :: "spa_bluetooth_audio_codec \<Rightarrow> int" where
  "codec_value c = fst (the (map_of codec_table c))"

definition codec_family :: "spa_bluetooth_audio_codec \<Rightarrow> profile_family option" where
  "codec_family c = snd (the (map_of codec_table c))"

text \<open>The values of one family's enumerators, in declaration order.\<close>

definition block_values :: "profile_family \<Rightarrow> int list" where
  "block_values f = map (\<lambda>(c, v, g). v) (filter (\<lambda>(c, v, g). g = Some f) codec_table)"

text \<open>
  The numeric range of a family as the specification words it: A2DP below the HFP block
  start \<open>0x100\<close>, HFP from \<open>0x100\<close> and below the BAP block start \<open>0x200\<close>, BAP from
  \<open>0x200\<close>.
\<close>

fun family_range :: "profile_family \<Rightarrow> int set" where
  "family_range A2DP = {..<0x100}"
| "family_range HFP = {0x100..<0x200}"
| "family_range BAP = {0x200..}"

text \<open>
  The identifiers of the codecs proper: the values of the enumerators that stand under a
  family's section comment, family by family. \<open>SPA_BLUETOOTH_AUDIO_CODEC_START\<close> stands
  before the first section comment and is not among them.
\<close>

definition codec_ids :: "int list" where
  "codec_ids = block_values A2DP @ block_values HFP @ block_values BAP"

section \<open>The Codec Identity Registry\<close>

text \<open>
  The header holds the enumeration only. The registry lookup and the negotiation
  session that consume it are not part of the sources; the definitions of this section
  and the next follow the design document, over the table the declaration denotes.
\<close>

datatype error =
    UnknownCodec
  | MalformedCapability
  | EmptyCapabilitySet
  | InvertedRange
  | NoCompatibleValue

text \<open>
  Modelled from the spec: \<open>family_of(CodecId) -> ProfileFamily\<close>, the registry lookup,
  which no source file contains. It is a pure lookup in the static table derived from
  the enumeration: an integer that is the value of an enumerator of a family block has
  that family, and every other integer (a reserved gap between blocks, the sentinel's
  value, anything past the last block) fails with \<open>UnknownCodec\<close>.
\<close>

definition family_of :: "int \<Rightarrow> error + profile_family" where
  "family_of v =
    (case find (\<lambda>(c, w, g). w = v) codec_table of
       Some (c, w, Some f) \<Rightarrow> Inr f
     | _ \<Rightarrow> Inl UnknownCodec)"

section \<open>The Negotiation Orchestrator\<close>

type_synonym byte = "8 word"

text \<open>
  Modelled from the spec: a CapabilityRecord, \<open>(profile, CodecId, raw bytes)\<close> as a peer
  advertises it. The codec identifier is the integer received, not yet known to be an
  enumerator's value.
\<close>

record capability_record =
  profile :: profile_family
  codec :: int
  raw_bytes :: "byte list"

text \<open>
  Modelled from the spec: the three components the orchestrator calls, by their
  contracts only, since their code is absent and the design leaves the layouts, the
  per-field preferences and the quality scores open. \<open>parse(CodecId, raw_bytes)\<close> yields
  a parsed capability or a parse error, \<open>rank(candidates)\<close> yields an ordered sequence
  of codec identifiers, \<open>select(ParsedCapability, LocalPolicy)\<close> yields a configuration
  or a selection failure. Every statement about the orchestrator holds for all of them.
\<close>

record ('cap, 'pol, 'cfg) engines =
  parse :: "int \<Rightarrow> byte list \<Rightarrow> error + 'cap"
  rank :: "(int \<times> 'cap) list \<Rightarrow> int list"
  select :: "'cap \<Rightarrow> 'pol \<Rightarrow> error + 'cfg"

text \<open>Modelled from the spec: the aggregate reason a failed session carries.\<close>

datatype failure_reason = NoCandidates | AllCandidatesIncompatible

text \<open>
  Modelled from the spec: the states \<open>Collecting\<close>, \<open>Ranking\<close>, \<open>Selecting\<close>,
  \<open>Committed\<close> and \<open>Failed(reason)\<close> of the session. \<open>Collecting\<close> and \<open>Ranking\<close> hold
  the records received, \<open>Selecting\<close> the valid candidates and the part of the ranked order
  still to try, \<open>Committed\<close> the chosen codec and its configuration.
\<close>

datatype ('cap, 'cfg) state =
    Collecting "capability_record list"
  | Ranking "capability_record list"
  | Selecting "(int \<times> 'cap) list" "int list"
  | Committed int 'cfg
  | Failed failure_reason

text \<open>
  Modelled from the spec: what the transport delivers, a capability record or the one
  terminal "exchange complete" signal.
\<close>

datatype event = Record capability_record | ExchangeComplete

text \<open>
  Modelled from the spec: the treatment of one record in \<open>Ranking\<close>. The registry is
  asked for the codec first (a miss is \<open>UnknownCodec\<close>), then the record is parsed; either
  error is the record's own.
\<close>

definition admit ::
  "('cap, 'pol, 'cfg) engines \<Rightarrow> capability_record \<Rightarrow> error + (int \<times> 'cap)" where
  "admit E r =
    (case family_of (codec r) of
       Inl e \<Rightarrow> Inl e
     | Inr f \<Rightarrow>
        (case parse E (codec r) (raw_bytes r) of
           Inl e \<Rightarrow> Inl e
         | Inr cap \<Rightarrow> Inr (codec r, cap)))"

text \<open>
  Modelled from the spec: "a record that fails to parse is dropped ..., not fatal to the
  session". The valid candidates are the records that were admitted, in arrival order.
\<close>

fun candidates ::
  "('cap, 'pol, 'cfg) engines \<Rightarrow> capability_record list \<Rightarrow> (int \<times> 'cap) list" where
  "candidates E [] = []"
| "candidates E (r # rs) =
    (case admit E r of
       Inl e \<Rightarrow> candidates E rs
     | Inr c \<Rightarrow> c # candidates E rs)"

text \<open>
  Modelled from the spec: one round of \<open>Selecting\<close>, the Selector invoked on the
  candidate the ranked order names (the first one received for that codec). An
  identifier that names no candidate has nothing to select from and counts as failed.
\<close>

definition attempt ::
  "('cap, 'pol, 'cfg) engines \<Rightarrow> 'pol \<Rightarrow> (int \<times> 'cap) list \<Rightarrow> int \<Rightarrow> error + 'cfg" where
  "attempt E pol cands i =
    (case map_of cands i of
       None \<Rightarrow> Inl NoCompatibleValue
     | Some cap \<Rightarrow> select E cap pol)"

text \<open>
  Modelled from the spec: the transitions an event causes. \<open>Collecting\<close> accumulates
  records and moves to \<open>Ranking\<close> on the exchange-complete signal; no transition is
  reversible, so every other state keeps what it has.
\<close>

fun deliver :: "('cap, 'cfg) state \<Rightarrow> event \<Rightarrow> ('cap, 'cfg) state" where
  "deliver (Collecting recs) (Record r) = Collecting (recs @ [r])"
| "deliver (Collecting recs) ExchangeComplete = Ranking recs"
| "deliver s e = s"

text \<open>
  Modelled from the spec: the transitions the session takes by itself. \<open>Ranking\<close> parses
  the records, asks for the order, and fails with \<open>NoCandidates\<close> when the ranked list is
  empty; \<open>Selecting\<close> tries the head of the order, commits on the first success, goes on
  to the next candidate on a failure, and fails with \<open>AllCandidatesIncompatible\<close> when the
  order is used up.
\<close>

fun advance ::
  "('cap, 'pol, 'cfg) engines \<Rightarrow> 'pol \<Rightarrow> ('cap, 'cfg) state \<Rightarrow> ('cap, 'cfg) state" where
  "advance E pol (Ranking recs) =
    (let cands = candidates E recs; order = rank E cands
     in if order = [] then Failed NoCandidates else Selecting cands order)"
| "advance E pol (Selecting cands []) = Failed AllCandidatesIncompatible"
| "advance E pol (Selecting cands (i # order)) =
    (case attempt E pol cands i of
       Inr cfg \<Rightarrow> Committed i cfg
     | Inl e \<Rightarrow> Selecting cands order)"
| "advance E pol s = s"

text \<open>The two measures of the work a state has left: its phase, and the order to try.\<close>

fun phase :: "('cap, 'cfg) state \<Rightarrow> nat" where
  "phase (Ranking recs) = 2"
| "phase (Selecting cands order) = 1"
| "phase s = 0"

fun pending :: "('cap, 'cfg) state \<Rightarrow> nat" where
  "pending (Selecting cands order) = length order"
| "pending s = 0"

text \<open>
  Modelled from the spec: ranking and selection are sequential steps with no suspension
  point, so the session advances until it waits for the transport (\<open>Collecting\<close>) or is
  terminal. The loop ends: \<open>Ranking\<close> is left at once, and every round of \<open>Selecting\<close>
  shortens the order.
\<close>

function (sequential) settle ::
  "('cap, 'pol, 'cfg) engines \<Rightarrow> 'pol \<Rightarrow> ('cap, 'cfg) state \<Rightarrow> ('cap, 'cfg) state" where
  "settle E pol (Ranking recs) = settle E pol (advance E pol (Ranking recs))"
| "settle E pol (Selecting cands order) = settle E pol (advance E pol (Selecting cands order))"
| "settle E pol s = s"
  by pat_completeness auto
termination
proof (relation "measures [\<lambda>(E, pol, s). phase s, \<lambda>(E, pol, s). pending s]")
  show "wf (measures [\<lambda>(E :: ('cap, 'pol, 'cfg) engines, pol :: 'pol, s :: ('cap, 'cfg) state).
      phase s, \<lambda>(E, pol, s). pending s])"
    by simp
next
  fix E :: "('cap, 'pol, 'cfg) engines" and pol :: 'pol and recs
  show "((E, pol, advance E pol (Ranking recs)), (E, pol, Ranking recs))
        \<in> measures [\<lambda>(E, pol, s). phase s, \<lambda>(E, pol, s). pending s]"
    by (simp add: Let_def)
next
  fix E :: "('cap, 'pol, 'cfg) engines" and pol :: 'pol and cands order
  show "((E, pol, advance E pol (Selecting cands order)), (E, pol, Selecting cands order))
        \<in> measures [\<lambda>(E, pol, s). phase s, \<lambda>(E, pol, s). pending s]"
    by (cases order) (simp_all split: sum.splits)
qed

text \<open>
  Modelled from the spec: a session. It starts in \<open>Collecting\<close> with no record, takes the
  events in arrival order and advances as far as it can after each.
\<close>

definition run ::
  "('cap, 'pol, 'cfg) engines \<Rightarrow> 'pol \<Rightarrow> event list \<Rightarrow> ('cap, 'cfg) state" where
  "run E pol events = foldl (\<lambda>s e. settle E pol (deliver s e)) (Collecting []) events"

text \<open>
  Modelled from the spec: the session of a complete exchange, the records and then the
  exchange-complete signal.
\<close>

definition negotiate ::
  "('cap, 'pol, 'cfg) engines \<Rightarrow> 'pol \<Rightarrow> capability_record list \<Rightarrow> ('cap, 'cfg) state" where
  "negotiate E pol recs = run E pol (map Record recs @ [ExchangeComplete])"

subsection \<open>A concrete session\<close>

text \<open>
  One small instance of the three components, to run the orchestrator on concrete
  records: a blob parses when it is not empty, candidates rank in arrival order, and the
  policy names the one byte the selection must find in the capability.
\<close>

definition sample_engines :: "(byte list, byte, byte) engines" where
  "sample_engines =
    \<lparr> parse = (\<lambda>c bs. if bs = [] then Inl MalformedCapability else Inr bs),
      rank = (\<lambda>cands. map fst cands),
      select = (\<lambda>cap pol. if pol \<in> set cap then Inr pol else Inl NoCompatibleValue) \<rparr>"

definition sbc_record :: capability_record where
  "sbc_record = \<lparr> profile = A2DP, codec = 1, raw_bytes = [0x21] \<rparr>"

definition gap_record :: capability_record where
  "gap_record = \<lparr> profile = A2DP, codec = 18, raw_bytes = [0x21] \<rparr>"

section \<open>The table the declaration denotes\<close>

lemma codec_table_eq:
  "codec_table =
    [ (SPA_BLUETOOTH_AUDIO_CODEC_START, 0, None),
      (SPA_BLUETOOTH_AUDIO_CODEC_SBC, 1, Some A2DP),
      (SPA_BLUETOOTH_AUDIO_CODEC_SBC_XQ, 2, Some A2DP),
      (SPA_BLUETOOTH_AUDIO_CODEC_MPEG, 3, Some A2DP),
      (SPA_BLUETOOTH_AUDIO_CODEC_AAC, 4, Some A2DP),
      (SPA_BLUETOOTH_AUDIO_CODEC_APTX, 5, Some A2DP),
      (SPA_BLUETOOTH_AUDIO_CODEC_APTX_HD, 6, Some A2DP),
      (SPA_BLUETOOTH_AUDIO_CODEC_LDAC, 7, Some A2DP),
      (SPA_BLUETOOTH_AUDIO_CODEC_APTX_LL, 8, Some A2DP),
      (SPA_BLUETOOTH_AUDIO_CODEC_APTX_LL_DUPLEX, 9, Some A2DP),
      (SPA_BLUETOOTH_AUDIO_CODEC_FASTSTREAM, 10, Some A2DP),
      (SPA_BLUETOOTH_AUDIO_CODEC_FASTSTREAM_DUPLEX, 11, Some A2DP),
      (SPA_BLUETOOTH_AUDIO_CODEC_LC3PLUS_HR, 12, Some A2DP),
      (SPA_BLUETOOTH_AUDIO_CODEC_OPUS_05, 13, Some A2DP),
      (SPA_BLUETOOTH_AUDIO_CODEC_OPUS_05_51, 14, Some A2DP),
      (SPA_BLUETOOTH_AUDIO_CODEC_OPUS_05_71, 15, Some A2DP),
      (SPA_BLUETOOTH_AUDIO_CODEC_OPUS_05_DUPLEX, 16, Some A2DP),
      (SPA_BLUETOOTH_AUDIO_CODEC_OPUS_05_PRO, 17, Some A2DP),
      (SPA_BLUETOOTH_AUDIO_CODEC_CVSD, 0x100, Some HFP),
      (SPA_BLUETOOTH_AUDIO_CODEC_MSBC, 0x101, Some HFP),
      (SPA_BLUETOOTH_AUDIO_CODEC_LC3, 0x200, Some BAP) ]"
  by (simp add: codec_table_def enum_body_def)

lemma codec_value_simps:
  "codec_value SPA_BLUETOOTH_AUDIO_CODEC_START = 0"
  "codec_value SPA_BLUETOOTH_AUDIO_CODEC_SBC = 1"
  "codec_value SPA_BLUETOOTH_AUDIO_CODEC_SBC_XQ = 2"
  "codec_value SPA_BLUETOOTH_AUDIO_CODEC_MPEG = 3"
  "codec_value SPA_BLUETOOTH_AUDIO_CODEC_AAC = 4"
  "codec_value SPA_BLUETOOTH_AUDIO_CODEC_APTX = 5"
  "codec_value SPA_BLUETOOTH_AUDIO_CODEC_APTX_HD = 6"
  "codec_value SPA_BLUETOOTH_AUDIO_CODEC_LDAC = 7"
  "codec_value SPA_BLUETOOTH_AUDIO_CODEC_APTX_LL = 8"
  "codec_value SPA_BLUETOOTH_AUDIO_CODEC_APTX_LL_DUPLEX = 9"
  "codec_value SPA_BLUETOOTH_AUDIO_CODEC_FASTSTREAM = 10"
  "codec_value SPA_BLUETOOTH_AUDIO_CODEC_FASTSTREAM_DUPLEX = 11"
  "codec_value SPA_BLUETOOTH_AUDIO_CODEC_LC3PLUS_HR = 12"
  "codec_value SPA_BLUETOOTH_AUDIO_CODEC_OPUS_05 = 13"
  "codec_value SPA_BLUETOOTH_AUDIO_CODEC_OPUS_05_51 = 14"
  "codec_value SPA_BLUETOOTH_AUDIO_CODEC_OPUS_05_71 = 15"
  "codec_value SPA_BLUETOOTH_AUDIO_CODEC_OPUS_05_DUPLEX = 16"
  "codec_value SPA_BLUETOOTH_AUDIO_CODEC_OPUS_05_PRO = 17"
  "codec_value SPA_BLUETOOTH_AUDIO_CODEC_CVSD = 0x100"
  "codec_value SPA_BLUETOOTH_AUDIO_CODEC_MSBC = 0x101"
  "codec_value SPA_BLUETOOTH_AUDIO_CODEC_LC3 = 0x200"
  by (simp_all add: codec_value_def codec_table_eq)

lemma codec_family_simps:
  "codec_family SPA_BLUETOOTH_AUDIO_CODEC_START = None"
  "codec_family SPA_BLUETOOTH_AUDIO_CODEC_SBC = Some A2DP"
  "codec_family SPA_BLUETOOTH_AUDIO_CODEC_SBC_XQ = Some A2DP"
  "codec_family SPA_BLUETOOTH_AUDIO_CODEC_MPEG = Some A2DP"
  "codec_family SPA_BLUETOOTH_AUDIO_CODEC_AAC = Some A2DP"
  "codec_family SPA_BLUETOOTH_AUDIO_CODEC_APTX = Some A2DP"
  "codec_family SPA_BLUETOOTH_AUDIO_CODEC_APTX_HD = Some A2DP"
  "codec_family SPA_BLUETOOTH_AUDIO_CODEC_LDAC = Some A2DP"
  "codec_family SPA_BLUETOOTH_AUDIO_CODEC_APTX_LL = Some A2DP"
  "codec_family SPA_BLUETOOTH_AUDIO_CODEC_APTX_LL_DUPLEX = Some A2DP"
  "codec_family SPA_BLUETOOTH_AUDIO_CODEC_FASTSTREAM = Some A2DP"
  "codec_family SPA_BLUETOOTH_AUDIO_CODEC_FASTSTREAM_DUPLEX = Some A2DP"
  "codec_family SPA_BLUETOOTH_AUDIO_CODEC_LC3PLUS_HR = Some A2DP"
  "codec_family SPA_BLUETOOTH_AUDIO_CODEC_OPUS_05 = Some A2DP"
  "codec_family SPA_BLUETOOTH_AUDIO_CODEC_OPUS_05_51 = Some A2DP"
  "codec_family SPA_BLUETOOTH_AUDIO_CODEC_OPUS_05_71 = Some A2DP"
  "codec_family SPA_BLUETOOTH_AUDIO_CODEC_OPUS_05_DUPLEX = Some A2DP"
  "codec_family SPA_BLUETOOTH_AUDIO_CODEC_OPUS_05_PRO = Some A2DP"
  "codec_family SPA_BLUETOOTH_AUDIO_CODEC_CVSD = Some HFP"
  "codec_family SPA_BLUETOOTH_AUDIO_CODEC_MSBC = Some HFP"
  "codec_family SPA_BLUETOOTH_AUDIO_CODEC_LC3 = Some BAP"
  by (simp_all add: codec_family_def codec_table_eq)

text \<open>Every enumerator has an entry: the two projections never read a missing one.\<close>

lemma codec_table_total:
  "map_of codec_table c = Some (codec_value c, codec_family c)"
  by (cases c) (simp_all add: codec_value_simps codec_family_simps, simp_all add: codec_table_eq)

lemma block_values_simps:
  "block_values A2DP = [1..17]"
  "block_values HFP = [0x100..0x101]"
  "block_values BAP = [0x200]"
  by (simp_all add: block_values_def codec_table_eq upto.simps)

lemma codec_ids_eq: "codec_ids = [1..17] @ [0x100, 0x101, 0x200]"
  by (simp add: codec_ids_def block_values_simps upto.simps)

lemma set_codec_ids: "set codec_ids = {1..17} \<union> {0x100, 0x101, 0x200}"
  by (auto simp: codec_ids_eq)

section \<open>Properties of the enumeration\<close>

text \<open>
  C1. Every enumerator of a family block has its value in that family's numeric range:
  an A2DP codec is below \<open>0x100\<close>, an HFP codec is at least \<open>0x100\<close> and below \<open>0x200\<close>,
  a BAP codec is at least \<open>0x200\<close>. The three ranges are pairwise disjoint, the value of
  every enumerator lies in exactly one of them, and for a codec of a family that one
  range is its own family's: the number alone tells the family.
\<close>

theorem codec_value_in_family_range:
  "(codec_family c = Some A2DP \<longrightarrow> codec_value c < 0x100)
   \<and> (codec_family c = Some HFP \<longrightarrow> 0x100 \<le> codec_value c \<and> codec_value c < 0x200)
   \<and> (codec_family c = Some BAP \<longrightarrow> 0x200 \<le> codec_value c)
   \<and> (f \<noteq> g \<longrightarrow> family_range f \<inter> family_range g = {})
   \<and> (\<exists>!h. codec_value c \<in> family_range h)
   \<and> (codec_family c = Some f \<longrightarrow>
        codec_value c \<in> family_range f
        \<and> (codec_value c \<in> family_range g \<longrightarrow> g = f))"
proof -
  have in_range: "codec_value d \<in> family_range h" if "codec_family d = Some h" for d h
    using that by (cases d) (simp_all add: codec_family_simps codec_value_simps)
  have disjoint: "family_range h \<inter> family_range k = {}" if "h \<noteq> k" for h k
    using that by (cases h; cases k) auto
  have some: "\<exists>h. v \<in> family_range h" for v
  proof -
    have "v \<in> family_range A2DP \<or> v \<in> family_range HFP \<or> v \<in> family_range BAP"
      by auto
    then show ?thesis by blast
  qed
  have one: "\<exists>!h. codec_value c \<in> family_range h"
    using some [of "codec_value c"] disjoint by blast
  have a2dp: "codec_value c < 0x100" if "codec_family c = Some A2DP"
    using in_range [OF that] by simp
  have hfp: "0x100 \<le> codec_value c \<and> codec_value c < 0x200" if "codec_family c = Some HFP"
    using in_range [OF that] by simp
  have bap: "0x200 \<le> codec_value c" if "codec_family c = Some BAP"
    using in_range [OF that] by simp
  have own: "g = f" if "codec_family c = Some f" "codec_value c \<in> family_range g"
    using in_range [OF that(1)] that(2) disjoint [of g f] by blast
  show ?thesis
    using a2dp hfp bap disjoint one in_range own by blast
qed

theorem codec_value_in_family_range_witness:
  "codec_family SPA_BLUETOOTH_AUDIO_CODEC_OPUS_05_PRO = Some A2DP
   \<and> codec_value SPA_BLUETOOTH_AUDIO_CODEC_OPUS_05_PRO < 0x100
   \<and> codec_family SPA_BLUETOOTH_AUDIO_CODEC_MSBC = Some HFP
   \<and> 0x100 \<le> codec_value SPA_BLUETOOTH_AUDIO_CODEC_MSBC
   \<and> codec_value SPA_BLUETOOTH_AUDIO_CODEC_MSBC < 0x200
   \<and> codec_family SPA_BLUETOOTH_AUDIO_CODEC_LC3 = Some BAP
   \<and> 0x200 \<le> codec_value SPA_BLUETOOTH_AUDIO_CODEC_LC3
   \<and> HFP \<noteq> BAP
   \<and> family_range HFP \<inter> family_range BAP = {}
   \<and> codec_value SPA_BLUETOOTH_AUDIO_CODEC_MSBC \<in> family_range HFP
   \<and> codec_value SPA_BLUETOOTH_AUDIO_CODEC_MSBC \<notin> family_range BAP
   \<and> codec_family SPA_BLUETOOTH_AUDIO_CODEC_CVSD = Some HFP
   \<and> codec_value SPA_BLUETOOTH_AUDIO_CODEC_CVSD \<in> family_range HFP"
proof -
  note same = codec_value_in_family_range
    [where c = SPA_BLUETOOTH_AUDIO_CODEC_CVSD and f = HFP and g = HFP]
  note a2dp = codec_value_in_family_range
    [where c = SPA_BLUETOOTH_AUDIO_CODEC_OPUS_05_PRO and f = A2DP and g = HFP]
  note hfp = codec_value_in_family_range
    [where c = SPA_BLUETOOTH_AUDIO_CODEC_MSBC and f = HFP and g = BAP]
  note bap = codec_value_in_family_range
    [where c = SPA_BLUETOOTH_AUDIO_CODEC_LC3 and f = BAP and g = A2DP]
  show ?thesis
    using a2dp hfp bap same by (simp add: codec_family_simps)
qed

text \<open>
  C9. \<open>SPA_BLUETOOTH_AUDIO_CODEC_START\<close> has the value \<open>0\<close>, stands in no family block
  and is the only enumerator with that value. The first codec,
  \<open>SPA_BLUETOOTH_AUDIO_CODEC_SBC\<close>, has the value \<open>1\<close>, which is the least identifier of
  any family block, so \<open>0\<close> is not the identifier of a codec, and the registry lookup
  treats it as outside all known ranges: \<open>family_of 0\<close> fails with \<open>UnknownCodec\<close>.
\<close>

theorem start_is_sentinel:
  "codec_value SPA_BLUETOOTH_AUDIO_CODEC_START = 0
   \<and> codec_family SPA_BLUETOOTH_AUDIO_CODEC_START = None
   \<and> {c. codec_value c = 0} = {SPA_BLUETOOTH_AUDIO_CODEC_START}
   \<and> codec_value SPA_BLUETOOTH_AUDIO_CODEC_SBC = 1
   \<and> codec_family SPA_BLUETOOTH_AUDIO_CODEC_SBC = Some A2DP
   \<and> Min (set codec_ids) = 1
   \<and> 0 \<notin> set codec_ids
   \<and> family_of 0 = Inl UnknownCodec
   \<and> family_of (codec_value SPA_BLUETOOTH_AUDIO_CODEC_START) = Inl UnknownCodec
   \<and> family_of (codec_value SPA_BLUETOOTH_AUDIO_CODEC_SBC) = Inr A2DP"
proof -
  have "c = SPA_BLUETOOTH_AUDIO_CODEC_START" if "codec_value c = 0" for c
    using that by (cases c) (simp_all add: codec_value_simps)
  then have "{c. codec_value c = 0} = {SPA_BLUETOOTH_AUDIO_CODEC_START}"
    by (auto simp: codec_value_simps)
  moreover have "Min (set codec_ids) = 1"
    by (simp add: codec_ids_eq upto.simps)
  moreover have "0 \<notin> set codec_ids"
    by (simp add: codec_ids_eq)
  moreover have "family_of 0 = Inl UnknownCodec"
    by (simp add: family_of_def codec_table_eq)
  moreover have "family_of 1 = Inr A2DP"
    by (simp add: family_of_def codec_table_eq)
  ultimately show ?thesis
    by (simp add: codec_value_simps codec_family_simps)
qed

text \<open>
  C10. No two enumerators have the same value. In declaration order the A2DP block is
  exactly \<open>1, 2, ..., 17\<close>, the HFP block exactly \<open>0x100, 0x101\<close> and the BAP block exactly
  \<open>0x200\<close>, each without an internal gap, and no enumerator has a value in the reserved
  gaps \<open>18 .. 0xFF\<close> and \<open>0x102 .. 0x1FF\<close>.
\<close>

theorem enum_values_distinct_consecutive:
  "inj codec_value
   \<and> block_values A2DP = [1..17]
   \<and> block_values HFP = [0x100..0x101]
   \<and> block_values BAP = [0x200]
   \<and> range codec_value \<inter> {18..0xFF} = {}
   \<and> range codec_value \<inter> {0x102..0x1FF} = {}"
proof -
  have "inj codec_value"
  proof (rule injI)
    fix x y assume "codec_value x = codec_value y"
    then show "x = y"
      by (cases x; cases y; simp add: codec_value_simps)
  qed
  moreover have "codec_value c \<notin> {18..0xFF} \<and> codec_value c \<notin> {0x102..0x1FF}" for c
    by (cases c) (simp_all add: codec_value_simps)
  ultimately show ?thesis
    by (auto simp: block_values_simps)
qed

section \<open>Properties of the registry lookup\<close>

text \<open>The lookup answers for every codec of a family block, with the block's family.\<close>

lemma family_of_known:
  "codec_family c = Some f \<Longrightarrow> family_of (codec_value c) = Inr f"
  by (cases c)
    (simp_all add: codec_family_simps codec_value_simps, simp_all add: family_of_def codec_table_eq)

lemma family_of_unknown:
  "v \<notin> set codec_ids \<Longrightarrow> family_of v = Inl UnknownCodec"
  by (simp add: codec_ids_eq upto.simps family_of_def codec_table_eq)

lemma family_of_error:
  "family_of v = Inl e \<Longrightarrow> e = UnknownCodec"
  by (auto simp: family_of_def split: option.splits prod.splits)

section \<open>Properties of the session\<close>

lemma collect_records:
  "foldl (\<lambda>s e. settle E pol (deliver s e)) (Collecting xs) (map Record recs)
    = Collecting (xs @ recs)"
  by (induction recs arbitrary: xs) simp_all

text \<open>A complete exchange leaves the session where \<open>Ranking\<close> of its records leads.\<close>

lemma negotiate_settle:
  "negotiate E pol recs = settle E pol (Ranking recs)"
  by (simp add: negotiate_def run_def collect_records del: settle.simps)

lemma candidates_append:
  "candidates E (xs @ ys) = candidates E xs @ candidates E ys"
  by (induction xs) (simp_all split: sum.splits)

lemma candidates_drop:
  "isl (admit E r) \<Longrightarrow> candidates E (xs @ r # ys) = candidates E (xs @ ys)"
  by (cases "admit E r") (simp_all add: candidates_append)

text \<open>A record that is not admitted leaves the session as it is without the record.\<close>

lemma negotiate_drop:
  "isl (admit E r) \<Longrightarrow> negotiate E pol (xs @ r # ys) = negotiate E pol (xs @ ys)"
  by (simp add: negotiate_settle candidates_drop)

lemma settle_selecting_failed:
  "settle E pol (Selecting cands order) = Failed r \<longleftrightarrow>
     r = AllCandidatesIncompatible \<and> (\<forall>i \<in> set order. isl (attempt E pol cands i))"
  by (induction order) (auto split: sum.splits)

text \<open>Selection always ends, committed or failed.\<close>

lemma settle_selecting_terminal:
  "(\<exists>i cfg. settle E pol (Selecting cands order) = Committed i cfg)
   \<or> (\<exists>r. settle E pol (Selecting cands order) = Failed r)"
  by (induction order) (auto split: sum.splits)

lemma settle_selecting_skip:
  "isl (attempt E pol cands i) \<Longrightarrow>
     settle E pol (Selecting cands (i # order)) = settle E pol (Selecting cands order)"
  by (auto split: sum.splits)

lemma negotiate_failed:
  "negotiate E pol recs = Failed r \<longleftrightarrow>
     (rank E (candidates E recs) = [] \<and> r = NoCandidates)
     \<or> (rank E (candidates E recs) \<noteq> []
         \<and> (\<forall>i \<in> set (rank E (candidates E recs)). isl (attempt E pol (candidates E recs) i))
         \<and> r = AllCandidatesIncompatible)"
  by (auto simp: negotiate_settle Let_def settle_selecting_failed simp del: settle.simps(2))

text \<open>A complete exchange always ends, committed or failed.\<close>

lemma negotiate_terminal:
  "(\<exists>i cfg. negotiate E pol recs = Committed i cfg) \<or> (\<exists>r. negotiate E pol recs = Failed r)"
proof (cases "rank E (candidates E recs) = []")
  case True
  then show ?thesis by (simp add: negotiate_settle)
next
  case False
  then have "negotiate E pol recs
      = settle E pol (Selecting (candidates E recs) (rank E (candidates E recs)))"
    by (simp add: negotiate_settle Let_def del: settle.simps(2))
  then show ?thesis
    using settle_selecting_terminal [of E pol "candidates E recs" "rank E (candidates E recs)"]
    by simp
qed

text \<open>
  C3. The defined identifiers are \<open>1 .. 17\<close>, \<open>0x100\<close>, \<open>0x101\<close> and \<open>0x200\<close>. For every
  other integer the lookup fails with \<open>UnknownCodec\<close>, in particular in the reserved gaps
  \<open>18 .. 0xFF\<close> and \<open>0x102 .. 0x1FF\<close> and above \<open>0x200\<close>. A record that carries such an
  identifier is refused with \<open>UnknownCodec\<close>, and that is all that happens: the session
  ends exactly as the session of the other records does.
\<close>

theorem unknown_codec_fails_record_only:
  "set codec_ids = {1..17} \<union> {0x100, 0x101} \<union> {0x200}
   \<and> (v \<notin> set codec_ids \<longrightarrow> family_of v = Inl UnknownCodec)
   \<and> (v \<in> {18..0xFF} \<union> {0x102..0x1FF} \<union> {0x201..} \<longrightarrow> family_of v = Inl UnknownCodec)
   \<and> (codec x \<notin> set codec_ids \<longrightarrow>
        admit E x = Inl UnknownCodec
        \<and> negotiate E pol (xs @ x # ys) = negotiate E pol (xs @ ys))"
proof -
  have ids: "set codec_ids = {1..17} \<union> {0x100, 0x101} \<union> {0x200}"
    by (auto simp: set_codec_ids)
  have gaps: "family_of v = Inl UnknownCodec"
    if "v \<in> {18..0xFF} \<union> {0x102..0x1FF} \<union> {0x201..}"
  proof -
    from that have "v \<notin> set codec_ids" by (auto simp: ids)
    then show ?thesis by (rule family_of_unknown)
  qed
  have dropped: "admit E x = Inl UnknownCodec
      \<and> negotiate E pol (xs @ x # ys) = negotiate E pol (xs @ ys)"
    if "codec x \<notin> set codec_ids"
  proof -
    from that have "admit E x = Inl UnknownCodec"
      by (simp add: admit_def family_of_unknown)
    then show ?thesis by (simp add: negotiate_drop)
  qed
  show ?thesis
    using ids gaps dropped family_of_unknown by blast
qed

theorem unknown_codec_fails_record_only_witness:
  "(18::int) \<notin> set codec_ids
   \<and> family_of 18 = Inl UnknownCodec
   \<and> (0x150::int) \<in> {18..0xFF} \<union> {0x102..0x1FF} \<union> {0x201..}
   \<and> family_of 0x150 = Inl UnknownCodec
   \<and> (0x201::int) \<in> {18..0xFF} \<union> {0x102..0x1FF} \<union> {0x201..}
   \<and> family_of 0x201 = Inl UnknownCodec
   \<and> codec gap_record \<notin> set codec_ids
   \<and> admit sample_engines gap_record = Inl UnknownCodec
   \<and> negotiate sample_engines 0x21 ([] @ gap_record # [sbc_record]) = Committed 1 0x21
   \<and> negotiate sample_engines 0x21 ([] @ [sbc_record]) = Committed 1 0x21"
proof -
  have a: "(18::int) \<notin> set codec_ids" by (simp add: set_codec_ids)
  have b: "(0x150::int) \<in> {18..0xFF} \<union> {0x102..0x1FF} \<union> {0x201..}" by simp
  have b': "(0x201::int) \<in> {18..0xFF} \<union> {0x102..0x1FF} \<union> {0x201..}" by simp
  have c: "codec gap_record \<notin> set codec_ids" by (simp add: gap_record_def set_codec_ids)
  have d: "negotiate sample_engines 0x21 ([] @ [sbc_record]) = Committed 1 0x21"
    by (simp add: negotiate_def run_def sample_engines_def sbc_record_def admit_def attempt_def
        family_of_def codec_table_eq)
  show ?thesis
    using a b b' c d
      unknown_codec_fails_record_only
        [where v = "0x201" and x = gap_record and E = sample_engines and pol = "0x21"
          and xs = "[]" and ys = "[sbc_record]"]
      unknown_codec_fails_record_only
        [where v = 18 and x = gap_record and E = sample_engines and pol = "0x21"
          and xs = "[]" and ys = "[sbc_record]"]
      unknown_codec_fails_record_only
        [where v = "0x150" and x = gap_record and E = sample_engines and pol = "0x21"
          and xs = "[]" and ys = "[sbc_record]"]
    by simp
qed

end
